theory Spec2Isabelle
  imports Complex_Main "HOL-Library.Sublist"
begin

section \<open>Python strings\<close>

text \<open>
  A Python \<open>str\<close> is modelled as a \<open>string\<close>: a list of 8-bit characters, each one
  standing for the Unicode code point of the same number, so that \<open>length\<close> is Python's
  \<open>len\<close> and list equality is \<open>==\<close> on every text whose code points lie below 256.
  The degree sign of the canned weather records is the character \<open>CHR 0xB0\<close>.
\<close>

text \<open>
  \<open>str.lower()\<close>. Below 256 the upper-case letters are A-Z (65-90) and the Latin-1
  capitals 192-214 and 216-222; each is 32 below its lower-case form, and every other code
  point is left as it is.
\<close>

definition is_upper_cp :: "nat \<Rightarrow> bool" where
  "is_upper_cp n = ((65 \<le> n \<and> n \<le> 90) \<or> (192 \<le> n \<and> n \<le> 214) \<or> (216 \<le> n \<and> n \<le> 222))"

definition lower_char :: "char \<Rightarrow> char" where
  "lower_char c = (let n = of_char c :: nat in if is_upper_cp n then char_of (n + 32) else c)"

definition lower :: "string \<Rightarrow> string" where
  "lower s = map lower_char s"

text \<open>
  \<open>str.strip()\<close> removes leading and trailing whitespace. Below 256 the whitespace code
  points are 9-13, 28-32, 133 and 160.
\<close>

definition is_space :: "char \<Rightarrow> bool" where
  "is_space c = (let n = of_char c :: nat in (9 \<le> n \<and> n \<le> 13) \<or> (28 \<le> n \<and> n \<le> 32) \<or> n = 133 \<or> n = 160)"

definition strip :: "string \<Rightarrow> string" where
  "strip s = rev (dropWhile is_space (rev (dropWhile is_space s)))"

text \<open>\<open>sub in s\<close> on strings: \<open>sub\<close> occurs in \<open>s\<close> as a contiguous run of characters.\<close>

fun str_in :: "string \<Rightarrow> string \<Rightarrow> bool" where
  "str_in sub [] = (sub = [])"
| "str_in sub (c # s) = (prefix sub (c # s) \<or> str_in sub s)"

text \<open>\<open>any(k in s for k in ks)\<close>.\<close>

definition any_in :: "string list \<Rightarrow> string \<Rightarrow> bool" where
  "any_in ks s = list_ex (\<lambda>k. str_in k s) ks"

section \<open>Retrieved matches\<close>

text \<open>
  A match returned by the vector index is a dictionary; the keys that the code reads with
  \<open>.get(key, default)\<close> are optional fields, \<open>None\<close> when the key is absent. A score
  is a number; the comparisons against the thresholds are modelled on the reals.
\<close>

record match_metadata =
  text_field :: "string option"
  source_field :: "string option"
  page_num :: "string option"

record retrieved_match =
  score :: "real option"
  metadata :: "match_metadata option"

text \<open>\<open>result.get("score", 0)\<close>\<close>

definition get_score :: "retrieved_match \<Rightarrow> real" where
  "get_score r = (case score r of None \<Rightarrow> 0 | Some s \<Rightarrow> s)"

text \<open>
  The loop \<open>for result in results: if result.get("score", 0) > threshold: ... break\<close>
  that sets \<open>has_relevant_results\<close>.
\<close>

definition any_score_above :: "real \<Rightarrow> retrieved_match list \<Rightarrow> bool" where
  "any_score_above threshold results = list_ex (\<lambda>r. get_score r > threshold) results"

section \<open>The web-search decision of chat\_handler.py\<close>

definition greeting_patterns :: "string list" where
  "greeting_patterns =
    [''hello'', ''hi'', ''hey'', ''greetings'', ''good morning'', ''good afternoon'',
     ''good evening'', ''how are you'', ''what's up'', ''howdy'']"

definition udcpr_keywords :: "string list" where
  "udcpr_keywords =
    [''udcpr'', ''regulation'', ''building'', ''development'', ''control'', ''promotion'',
     ''maharashtra'', ''construction'', ''zoning'', ''fsi'', ''floor space'', ''height'',
     ''setback'', ''plot'', ''land'', ''urban'', ''planning'', ''architect'']"

definition handler_external_info_keywords :: "string list" where
  "handler_external_info_keywords =
    [''recent'', ''latest'', ''new'', ''update'', ''amendment'', ''change'',
     ''modified'', ''revision'', ''current'', ''2023'', ''2024'', ''added'', ''removed'',
     ''most'', ''latest'', ''changes'', ''amendments'', ''notifications'']"

definition handler_force_web_search_phrases :: "string list" where
  "handler_force_web_search_phrases =
    [''most recent'', ''latest update'', ''new rules'', ''recent changes'',
     ''latest amendment'', ''current version'', ''updated regulation'',
     ''what are the most recent'', ''what are the latest'', ''recent notification'']"

text \<open>
  The value of \<open>has_relevant_results\<close> at the end of the decision block of
  \<open>handle_chat_input\<close> (reached when web search is switched on): \<open>False\<close> sends the query
  to the web search.
\<close>

definition handler_has_relevant_results :: "string \<Rightarrow> retrieved_match list \<Rightarrow> bool" where
  "handler_has_relevant_results prompt results =
    (let is_greeting = any_in greeting_patterns (lower prompt);
         is_udcpr_related = any_in udcpr_keywords (lower prompt);
         needs_external_info = any_in handler_external_info_keywords (lower prompt);
         force_web_search = any_in handler_force_web_search_phrases (lower prompt);
         has_any_results = (length results > 0)
     in if force_web_search then False
        else if is_greeting \<or> length (strip prompt) < 10
                \<or> (is_udcpr_related \<and> \<not> needs_external_info \<and> has_any_results) then True
        else any_score_above 0.75 results)"

section \<open>The web-search decision of chatbot\_web.py\<close>

definition web_external_info_keywords :: "string list" where
  "web_external_info_keywords =
    [''recent'', ''latest'', ''new'', ''update'', ''amendment'', ''change'',
     ''modified'', ''revision'', ''current'', ''2023'', ''2024'', ''2025'', ''added'', ''removed'',
     ''most'', ''latest'', ''changes'', ''amendments'', ''notifications'', ''news'',
     ''today'', ''month'', ''year'', ''week'', ''information'', ''outside'', ''weather'',
     ''temperature'', ''forecast'', ''rain'', ''snow'', ''wind'', ''humidity'', ''climate'',
     ''stock'', ''price'', ''market'', ''company'', ''business'', ''economy'', ''financial'',
     ''sports'', ''game'', ''match'', ''score'', ''team'', ''player'', ''tournament'',
     ''movie'', ''film'', ''show'', ''series'', ''actor'', ''actress'', ''director'',
     ''music'', ''song'', ''album'', ''artist'', ''band'', ''concert'', ''release'',
     ''politics'', ''election'', ''president'', ''minister'', ''government'', ''policy'',
     ''health'', ''disease'', ''virus'', ''pandemic'', ''vaccine'', ''treatment'',
     ''technology'', ''device'', ''gadget'', ''app'', ''software'', ''hardware'',
     ''travel'', ''flight'', ''hotel'', ''destination'', ''vacation'', ''tourism'']"

definition web_force_web_search_phrases :: "string list" where
  "web_force_web_search_phrases =
    [''most recent'', ''latest update'', ''new rules'', ''recent changes'',
     ''latest amendment'', ''current version'', ''updated regulation'',
     ''what are the most recent'', ''what are the latest'', ''recent notification'',
     ''search the web'', ''look online'', ''find online'', ''internet'', ''web search'',
     ''outside the document'', ''external information'', ''online information'',
     ''what is the temperature'', ''how is the weather'', ''what's the weather'',
     ''current temperature'', ''weather forecast'', ''what is the price of'',
     ''how much is'', ''what happened'', ''who won'', ''when is'', ''where is'',
     ''tell me about'', ''find information'', ''search for'', ''look up'']"

definition location_keywords :: "string list" where
  "location_keywords =
    [''usa'', ''america'', ''us'', ''united states'', ''texas'', ''california'', ''new york'',
     ''florida'', ''chicago'', ''los angeles'', ''houston'', ''phoenix'', ''philadelphia'',
     ''san antonio'', ''san diego'', ''dallas'', ''austin'', ''san jose'', ''india'', ''delhi'',
     ''mumbai'', ''bangalore'', ''hyderabad'', ''chennai'', ''kolkata'', ''europe'', ''asia'',
     ''africa'', ''australia'', ''canada'', ''mexico'', ''brazil'', ''china'', ''japan'',
     ''russia'', ''uk'', ''france'', ''germany'', ''italy'', ''spain'']"

definition question_starters :: "string list" where
  "question_starters =
    [''what is'', ''how is'', ''when is'', ''where is'', ''who is'', ''why is'',
     ''can you tell me'', ''do you know'', ''i want to know'', ''tell me about'']"

definition weather_terms :: "string list" where
  "weather_terms =
    [''temperature'', ''weather'', ''forecast'', ''rain'', ''snow'', ''wind'', ''humidity'', ''climate'',
     ''hot'', ''cold'', ''warm'', ''cool'', ''degrees'', ''celsius'', ''fahrenheit'']"

definition time_indicators :: "string list" where
  "time_indicators =
    [''now'', ''today'', ''current'', ''latest'', ''recent'', ''right now'', ''at the moment'',
     ''currently'', ''presently'', ''this time'', ''this moment'']"

text \<open>
  The nested function \<open>is_non_udcpr_query(query)\<close>; \<open>contains_location\<close> and
  \<open>is_udcpr_related\<close> are the variables of the enclosing block that it reads.
\<close>

definition is_non_udcpr_query :: "bool \<Rightarrow> bool \<Rightarrow> string \<Rightarrow> bool" where
  "is_non_udcpr_query contains_location is_udcpr_related query =
    (if str_in ''temperature'' (lower query) \<or> str_in ''weather'' (lower query) then True
     else if any_in question_starters (lower query) \<and> contains_location \<and> \<not> is_udcpr_related then True
     else if any_in weather_terms (lower query) then True
     else if any_in time_indicators (lower query) \<and> \<not> is_udcpr_related then True
     else if contains_location \<and> \<not> is_udcpr_related then True
     else False)"

text \<open>
  The value of \<open>has_relevant_results\<close> at the end of the decision block of the module-level
  chat handler of chatbot\_web.py (reached when web search is switched on).
\<close>

definition web_has_relevant_results :: "string \<Rightarrow> retrieved_match list \<Rightarrow> bool" where
  "web_has_relevant_results prompt results =
    (let is_greeting = any_in greeting_patterns (lower prompt);
         is_udcpr_related = any_in udcpr_keywords (lower prompt);
         needs_external_info = any_in web_external_info_keywords (lower prompt);
         force_web_search = any_in web_force_web_search_phrases (lower prompt);
         contains_location = any_in location_keywords (lower prompt);
         non_udcpr = is_non_udcpr_query contains_location is_udcpr_related prompt
     in if str_in ''temperature'' (lower prompt) \<or> str_in ''weather'' (lower prompt) then False
        else if force_web_search then False
        else if non_udcpr then False
        else if is_greeting \<or> length (strip prompt) < 8 then True
        else if needs_external_info then False
        else if contains_location \<and> \<not> is_udcpr_related then False
        else any_score_above 0.95 results)"

section \<open>Conversation history\<close>

record chat_turn =
  role :: string
  content :: string

definition MAX_HISTORY_MESSAGES :: int where
  "MAX_HISTORY_MESSAGES = 10"

text \<open>
  The slice \<open>xs[i:]\<close> for an integer \<open>i\<close>: a negative start counts from the end, and a start
  outside the list is clamped to it.
\<close>

definition py_slice_from :: "int \<Rightarrow> 'a list \<Rightarrow> 'a list" where
  "py_slice_from i xs =
    (let n = int (length xs);
         start = (if i < 0 then max 0 (n + i) else min i n)
     in drop (nat start) xs)"

text \<open>
  \<open>if len(chat_history) > MAX_HISTORY_MESSAGES: chat_history = chat_history[-MAX_HISTORY_MESSAGES:]\<close>
\<close>

definition limit_history :: "chat_turn list \<Rightarrow> chat_turn list" where
  "limit_history h =
    (if int (length h) > MAX_HISTORY_MESSAGES then py_slice_from (- MAX_HISTORY_MESSAGES) h else h)"

text \<open>
  The update of the stored history at the end of a chat turn (api\_server.py \<open>chat\<close>,
  chatbot\_web.py, chat\_handler.py, udcpr\_chatbot\_streamlit.py): the user turn and the
  assistant turn are appended, then the history is limited.
\<close>

definition appended_history :: "chat_turn list \<Rightarrow> string \<Rightarrow> string \<Rightarrow> chat_turn list" where
  "appended_history h prompt full_response =
    h @ [\<lparr>role = ''user'', content = prompt\<rparr>, \<lparr>role = ''assistant'', content = full_response\<rparr>]"

definition update_chat_history :: "chat_turn list \<Rightarrow> string \<Rightarrow> string \<Rightarrow> chat_turn list" where
  "update_chat_history h prompt full_response = limit_history (appended_history h prompt full_response)"

section \<open>Prompt assembly\<close>

text \<open>\<open>sep.join(parts)\<close>\<close>

fun str_join :: "string \<Rightarrow> string list \<Rightarrow> string" where
  "str_join sep [] = []"
| "str_join sep [x] = x"
| "str_join sep (x # y # ys) = x @ sep @ str_join sep (y # ys)"

definition nl :: string where
  "nl = [CHR 0x0A]"

definition dq :: string where
  "dq = [CHR 0x22]"

text \<open>The system message of api\_server.py, line by line.\<close>

definition api_system_message :: string where
  "api_system_message = str_join nl
    [''You are UDCPR Saathi, an expert assistant for the Unified Development Control and Promotion Regulations (UDCPR) for Maharashtra State, India. You are knowledgeable, helpful, and confident in providing information about building regulations, zoning, FSI, and development control rules.'',
     [],
     ''IMPORTANT GUIDELINES:'',
     ''1. **Be Confident**: When the context contains relevant information, provide detailed answers confidently. Don't say '' @ dq @ ''the document doesn't provide information'' @ dq @ '' if there's relevant content.'',
     [],
     ''2. **Use Available Information**: Extract and synthesize information from the provided context. Even if it's not perfectly complete, provide what you know and build upon it with standard urban planning knowledge.'',
     [],
     ''3. **Structure Your Answers**: '',
     ''   - Start with a direct answer'',
     ''   - Provide specific details from UDCPR'',
     ''   - Use bullet points or numbered lists for clarity'',
     ''   - Include relevant regulations, measurements, and requirements'',
     [],
     ''4. **For Common Terms**: '',
     ''   - Green Zone: Areas for environmental conservation, parks, open spaces with restricted development'',
     ''   - Building Height: Provide specific UDCPR height limits based on road width, zoning, and area type'',
     ''   - FSI/FAR: Floor Space Index regulations as per UDCPR zones'',
     [],
     ''5. **Be Helpful**: If the exact information isn't in the context but you can infer from related UDCPR content, provide a helpful response and suggest consulting local authorities for specific cases.'',
     [],
     ''6. **Tone**: Professional, knowledgeable, and helpful. You're here to make UDCPR regulations accessible and understandable.'',
     [],
     ''Remember: You're an expert who knows UDCPR well. Be confident in your responses when you have relevant information.'']"

text \<open>The system message of udcpr\_chatbot\_streamlit.py.\<close>

definition streamlit_system_message :: string where
  "streamlit_system_message = str_join nl
    [''You are an expert assistant for the Unified Development Control and Promotion Regulations (UDCPR) for Maharashtra State, India. '',
     ''Your task is to provide accurate, helpful information about building regulations, zoning requirements, and development control rules based on the UDCPR document.'',
     [],
     ''When answering:'',
     ''1. Base your answers primarily on the provided context from the UDCPR document'',
     ''2. If the context contains the information, provide detailed, accurate answers'',
     ''3. If the context doesn't contain enough information, acknowledge the limitations'',
     ''4. Be concise but thorough'',
     ''5. Use bullet points or numbered lists for clarity when appropriate'',
     ''6. If asked about something outside the scope of UDCPR, politely explain that you're focused on UDCPR regulations'',
     ''7. If web search results are provided, you may use them to supplement your answer, but clearly indicate when information comes from external sources'',
     [],
     ''Remember, your goal is to help users understand and navigate the UDCPR regulations accurately.'']"

text \<open>
  \<open>if chat_history: recent_history = chat_history[-MAX_HISTORY_MESSAGES:]\<close>: the turns
  that the prompt takes from the history. The argument is \<open>None\<close> when the caller passes no
  history; \<open>None\<close> and the empty list are both false and contribute nothing.
\<close>

definition recent_history :: "chat_turn list option \<Rightarrow> chat_turn list" where
  "recent_history chat_history =
    (case chat_history of
       None \<Rightarrow> []
     | Some h \<Rightarrow> if h \<noteq> [] then py_slice_from (- MAX_HISTORY_MESSAGES) h else [])"

text \<open>The turns of the history argument, none when it is \<open>None\<close>.\<close>

definition history_turns :: "chat_turn list option \<Rightarrow> chat_turn list" where
  "history_turns chat_history = (case chat_history of None \<Rightarrow> [] | Some h \<Rightarrow> h)"

text \<open>\<open>f"Question: {query}\n\nRelevant sections from the UDCPR document:\n{context}"\<close>\<close>

definition user_message :: "string \<Rightarrow> string \<Rightarrow> string" where
  "user_message query context =
    ''Question: '' @ query @ nl @ nl @ ''Relevant sections from the UDCPR document:'' @ nl @ context"

text \<open>
  \<open>create_chat_prompt(query, context, chat_history=None)\<close> of api\_server.py. Each history
  entry is copied field by field into a new turn.
\<close>

definition api_create_chat_prompt :: "string \<Rightarrow> string \<Rightarrow> chat_turn list option \<Rightarrow> chat_turn list" where
  "api_create_chat_prompt query context chat_history =
    [\<lparr>role = ''system'', content = api_system_message\<rparr>]
    @ map (\<lambda>msg. \<lparr>role = role msg, content = content msg\<rparr>) (recent_history chat_history)
    @ [\<lparr>role = ''user'', content = user_message query context\<rparr>]"

text \<open>
  \<open>create_chat_prompt(query, context, web_search_context=None, chat_history=None)\<close> of
  udcpr\_chatbot\_streamlit.py. The web search context is added to the user message when it
  is neither \<open>None\<close> nor empty.
\<close>

definition create_chat_prompt ::
  "string \<Rightarrow> string \<Rightarrow> string option \<Rightarrow> chat_turn list option \<Rightarrow> chat_turn list" where
  "create_chat_prompt query context web_search_context chat_history =
    [\<lparr>role = ''system'', content = streamlit_system_message\<rparr>]
    @ recent_history chat_history
    @ [\<lparr>role = ''user'',
        content =
          (case web_search_context of
             None \<Rightarrow> user_message query context
           | Some w \<Rightarrow>
               if w \<noteq> [] then user_message query context @ nl @ nl
                                 @ ''Additional information from web search:'' @ nl @ w
               else user_message query context)\<rparr>]"

section \<open>The API server: context formatting and the chat endpoint\<close>

datatype error = ValueError | IndexError | ValidationError | ServiceError

record source_entry =
  src_source :: string
  src_page :: string
  src_score :: real

text \<open>
  What \<open>format_context_from_results\<close> of api\_server.py hands back: a bare string on
  one return path, a (context, sources) tuple on the two others.
\<close>

datatype fmt_result = Bare string | Pair string "source_entry list"

text \<open>
  \<open>result.get("metadata", {}).get("text", "")\<close>, and the same for \<open>"source"\<close> and
  \<open>"page_num"\<close> with the default \<open>"Unknown"\<close>.
\<close>

definition get_text :: "retrieved_match \<Rightarrow> string" where
  "get_text r =
    (case metadata r of None \<Rightarrow> []
     | Some m \<Rightarrow> (case text_field m of None \<Rightarrow> [] | Some t \<Rightarrow> t))"

definition get_source :: "retrieved_match \<Rightarrow> string" where
  "get_source r =
    (case metadata r of None \<Rightarrow> ''Unknown''
     | Some m \<Rightarrow> (case source_field m of None \<Rightarrow> ''Unknown'' | Some t \<Rightarrow> t))"

definition get_page :: "retrieved_match \<Rightarrow> string" where
  "get_page r =
    (case metadata r of None \<Rightarrow> ''Unknown''
     | Some m \<Rightarrow> (case page_num m of None \<Rightarrow> ''Unknown'' | Some t \<Rightarrow> t))"

text \<open>\<open>f"[Source: {source}, Page: {page}]\n{text}\n"\<close>\<close>

definition context_part :: "retrieved_match \<Rightarrow> string" where
  "context_part r =
    ''[Source: '' @ get_source r @ '', Page: '' @ get_page r @ '']'' @ nl @ get_text r @ nl"

text \<open>The loop of \<open>format_context_from_results\<close>: the matches kept for the context.\<close>

definition api_kept :: "retrieved_match list \<Rightarrow> retrieved_match list" where
  "api_kept results = filter (\<lambda>r. get_text r \<noteq> [] \<and> get_score r > 0.3) results"

definition format_context_from_results :: "retrieved_match list \<Rightarrow> fmt_result" where
  "format_context_from_results results =
    (if results = [] then Bare ''No relevant information found in the UDCPR document.''
     else
       let context_parts = map context_part (api_kept results);
           sources = map (\<lambda>r. \<lparr>src_source = get_source r, src_page = get_page r,
                                src_score = get_score r\<rparr>) (api_kept results)
       in if context_parts = []
          then Pair ''No sufficiently relevant information found in the UDCPR document.'' []
          else Pair (str_join nl context_parts) sources)"

text \<open>
  \<open>context, sources = format_context_from_results(results)\<close>. A tuple of two unpacks
  into its components. A string unpacks character by character, so it must have exactly two
  characters and then gives two one-character strings; any other length raises ValueError.
\<close>

datatype sources_value = SourceList "source_entry list" | SourceStr string

definition unpack_context_sources :: "fmt_result \<Rightarrow> error + (string \<times> sources_value)" where
  "unpack_context_sources r =
    (case r of
       Pair c s \<Rightarrow> Inr (c, SourceList s)
     | Bare s \<Rightarrow>
         (case s of
            [a, b] \<Rightarrow> Inr ([a], SourceStr [b])
          | _ \<Rightarrow> Inl ValueError))"

record chat_request =
  req_message :: string
  req_session_id :: "string option"
  req_chat_history :: "chat_turn list option"

record chat_response =
  resp_response :: string
  resp_session_id :: string
  resp_sources :: "source_entry list"

record session =
  history :: "chat_turn list"
  created_at :: nat

text \<open>
  What the outside world answers during one call of \<open>chat\<close>: the identifier that
  \<open>uuid.uuid4()\<close> draws, the clock, the outcome of \<open>search_pinecone\<close> and the outcome of
  the completion call on the assembled prompt.
\<close>

record chat_env =
  fresh_uuid :: string
  now :: nat
  search_pinecone :: "string \<Rightarrow> error + retrieved_match list"
  completion :: "chat_turn list \<Rightarrow> error + string"

datatype http_error = HTTP500 error

text \<open>
  The \<open>/chat\<close> endpoint. It returns the response or the HTTPException raised by its
  \<open>except\<close> clause, together with the session table as the call leaves it.
\<close>

definition chat ::
  "(string \<rightharpoonup> session) \<Rightarrow> chat_request \<Rightarrow> chat_env
     \<Rightarrow> (http_error + chat_response) \<times> (string \<rightharpoonup> session)" where
  "chat sessions request env =
    (let session_id =
           (case req_session_id request of
              None \<Rightarrow> fresh_uuid env
            | Some s \<Rightarrow> if s \<noteq> [] then s else fresh_uuid env);
         sessions1 =
           (case sessions session_id of
              None \<Rightarrow> sessions(session_id \<mapsto> \<lparr>history = [], created_at = now env\<rparr>)
            | Some _ \<Rightarrow> sessions);
         stored = (case sessions1 session_id of None \<Rightarrow> [] | Some se \<Rightarrow> history se);
         created = (case sessions1 session_id of None \<Rightarrow> now env | Some se \<Rightarrow> created_at se)
     in case search_pinecone env (req_message request) of
          Inl e \<Rightarrow> (Inl (HTTP500 e), sessions1)
        | Inr results \<Rightarrow>
            (case unpack_context_sources (format_context_from_results results) of
               Inl e \<Rightarrow> (Inl (HTTP500 e), sessions1)
             | Inr (context, sources) \<Rightarrow>
                 let chat_history =
                       (case req_chat_history request of
                          None \<Rightarrow> stored
                        | Some h \<Rightarrow> if h \<noteq> [] then h else stored);
                     messages = api_create_chat_prompt (req_message request) context (Some chat_history)
                 in (case completion env messages of
                       Inl e \<Rightarrow> (Inl (HTTP500 e), sessions1)
                     | Inr assistant_response \<Rightarrow>
                         let sessions2 =
                               sessions1(session_id \<mapsto>
                                 \<lparr>history = update_chat_history stored (req_message request) assistant_response,
                                  created_at = created\<rparr>)
                         in (case sources of
                               SourceStr _ \<Rightarrow> (Inl (HTTP500 ValidationError), sessions2)
                             | SourceList l \<Rightarrow>
                                 (Inr \<lparr>resp_response = assistant_response,
                                       resp_session_id = session_id,
                                       resp_sources = l\<rparr>, sessions2)))))"

section \<open>The web search of web\_search.py\<close>

record web_result =
  title :: string
  link :: string
  snippet :: string
  source :: string

text \<open>
  What the parsed page of a search engine offers for one result container: the element found
  by the title selector, if any, with its text, its own \<open>href\<close> attribute and the
  \<open>href\<close> of its enclosing anchor (no anchor, an anchor without the attribute, or a link),
  and the text of the element found by the snippet selector, if any.
\<close>

record title_element =
  elem_text :: string
  elem_href :: "string option"
  parent_a_href :: "string option option"

record raw_result =
  title_elem :: "title_element option"
  snippet_elem :: "string option"

text \<open>
  The network as one call of \<open>perform_web_search\<close> meets it: for each engine, by name, an
  exception raised in the request or the result containers selected from its page; and the
  outcome of the direct request to Bing that follows the loop.
\<close>

record network =
  engine_response :: "string \<Rightarrow> error + raw_result list"
  direct_response :: "error + unit"

text \<open>The slice \<open>xs[:n]\<close> for an integer \<open>n\<close>.\<close>

definition py_slice_to :: "int \<Rightarrow> 'a list \<Rightarrow> 'a list" where
  "py_slice_to n xs =
    (let len = int (length xs);
         stop = (if n < 0 then max 0 (len + n) else min n len)
     in take (nat stop) xs)"

text \<open>
  \<open>s.split(sep)\<close>: the pieces of \<open>s\<close> between the occurrences of \<open>sep\<close>, found from the
  left without overlap. An empty separator raises ValueError.
\<close>

fun split_from :: "string \<Rightarrow> string \<Rightarrow> string \<Rightarrow> string list" where
  "split_from sep acc [] = [rev acc]"
| "split_from sep acc (c # s) =
    (if sep \<noteq> [] \<and> prefix sep (c # s)
     then rev acc # split_from sep [] (drop (length sep - 1) s)
     else split_from sep (c # acc) s)"

definition py_split :: "string \<Rightarrow> string \<Rightarrow> error + string list" where
  "py_split sep s = (if sep = [] then Inl ValueError else Inr (split_from sep [] s))"

text \<open>\<open>xs[i]\<close> for an index \<open>i\<close> that is not negative.\<close>

definition py_item :: "'a list \<Rightarrow> nat \<Rightarrow> error + 'a" where
  "py_item xs i = (if i < length xs then Inr (xs ! i) else Inl IndexError)"

text \<open>
  \<open>if link.startswith("/url?q="): link = link.split("/url?q=")[1].split("&")[0]\<close>
\<close>

definition clean_google_link :: "string \<Rightarrow> error + string" where
  "clean_google_link l =
    (if prefix ''/url?q='' l then
       (case py_split ''/url?q='' l of
          Inl e \<Rightarrow> Inl e
        | Inr parts \<Rightarrow>
            (case py_item parts 1 of
               Inl e \<Rightarrow> Inl e
             | Inr p \<Rightarrow>
                 (case py_split ''&'' p of
                    Inl e \<Rightarrow> Inl e
                  | Inr qs \<Rightarrow> py_item qs 0)))
     else Inr l)"

definition extract_link :: "string \<Rightarrow> title_element \<Rightarrow> error + string" where
  "extract_link engine_name te =
    (if engine_name = ''Google'' then
       clean_google_link
         (case parent_a_href te of
            None \<Rightarrow> []
          | Some a \<Rightarrow> (case a of None \<Rightarrow> [] | Some h \<Rightarrow> h))
     else Inr (case elem_href te of None \<Rightarrow> [] | Some h \<Rightarrow> h))"

text \<open>
  The inner loop \<open>for result in search_results[:num_results]\<close>, started on the results
  collected so far. An exception leaves the loop; the \<open>except\<close> clause of the engine only
  prints, so what was appended up to then stays.
\<close>

fun scrape_results :: "string \<Rightarrow> raw_result list \<Rightarrow> web_result list \<Rightarrow> web_result list" where
  "scrape_results engine_name [] results = results"
| "scrape_results engine_name (r # rs) results =
    (case title_elem r of
       None \<Rightarrow> scrape_results engine_name rs results
     | Some te \<Rightarrow>
         (case extract_link engine_name te of
            Inl e \<Rightarrow> results
          | Inr l \<Rightarrow>
              if strip (elem_text te) \<noteq> [] \<and> l \<noteq> []
                 \<and> \<not> list_ex (\<lambda>x. title x = strip (elem_text te)) results
              then scrape_results engine_name rs
                     (results @ [\<lparr>title = strip (elem_text te), link = l,
                                  snippet = (case snippet_elem r of None \<Rightarrow> [] | Some t \<Rightarrow> strip t),
                                  source = engine_name\<rparr>])
              else scrape_results engine_name rs results))"

text \<open>The body of \<open>for engine in search_engines\<close> with its \<open>try\<close>.\<close>

definition try_engine :: "int \<Rightarrow> network \<Rightarrow> web_result list \<Rightarrow> string \<Rightarrow> web_result list" where
  "try_engine num_results net results engine_name =
    (case engine_response net engine_name of
       Inl e \<Rightarrow> results
     | Inr search_results \<Rightarrow> scrape_results engine_name (py_slice_to num_results search_results) results)"

definition search_engines :: "string list" where
  "search_engines = [''DuckDuckGo'', ''Bing'', ''Google'']"

text \<open>The results in hand when the loop over the engines is over.\<close>

definition collect_results :: "int \<Rightarrow> network \<Rightarrow> web_result list" where
  "collect_results num_results net = foldl (try_engine num_results net) [] search_engines"

text \<open>The rewriting of the query at the start of \<open>perform_web_search\<close>.\<close>

definition rewrite_query :: "string \<Rightarrow> string" where
  "rewrite_query query =
    (if str_in ''temperature'' (lower query) \<or> str_in ''weather'' (lower query) then
       (if \<not> str_in ''current'' (lower query) \<and> \<not> str_in ''now'' (lower query)
           \<and> \<not> str_in ''today'' (lower query)
        then ''current '' @ query else query)
     else if \<not> str_in ''udcpr'' (lower query)
             \<and> any_in [''regulation'', ''building'', ''development'', ''control'', ''promotion'',
                        ''maharashtra''] (lower query)
     then ''UDCPR '' @ query
     else if any_in [''recent'', ''latest'', ''new'', ''update'', ''amendment''] (lower query) then
       (if \<not> str_in ''udcpr'' (lower query)
        then ''latest UDCPR updates Maharashtra '' @ query
        else ''latest '' @ query @ '' Maharashtra'')
     else query)"

text \<open>
  The canned weather data. The argument is \<open>query.lower()\<close>; the cities of Texas are looked
  for only once \<open>"texas"\<close> has been found.
\<close>

record weather_info =
  location :: string
  weather_link :: string
  current_temp :: string
  conditions :: string
  specific_location :: string

definition deg :: string where
  "deg = [CHR 0xB0]"

definition weather_lookup :: "string \<Rightarrow> weather_info" where
  "weather_lookup q =
    (if str_in ''texas'' q then
       (let texas = \<lparr>location = ''Texas, USA'',
                     weather_link = ''https://forecast.weather.gov/MapClick.php?site=EWX&textField1=31.25&textField2=-99.41'',
                     current_temp = ''75-95'' @ deg @ ''F (24-35'' @ deg @ ''C)'',
                     conditions = ''partly cloudy with a chance of isolated thunderstorms'',
                     specific_location = ''Texas''\<rparr>
        in if str_in ''dallas'' q then
             texas\<lparr>specific_location := ''Dallas'',
                   current_temp := ''85-95'' @ deg @ ''F (29-35'' @ deg @ ''C)''\<rparr>
           else if str_in ''houston'' q then
             texas\<lparr>specific_location := ''Houston'',
                   current_temp := ''80-95'' @ deg @ ''F (27-35'' @ deg @ ''C)'',
                   conditions := ''humid with a chance of afternoon showers''\<rparr>
           else if str_in ''austin'' q then
             texas\<lparr>specific_location := ''Austin'',
                   current_temp := ''82-97'' @ deg @ ''F (28-36'' @ deg @ ''C)''\<rparr>
           else if str_in ''san antonio'' q then
             texas\<lparr>specific_location := ''San Antonio'',
                   current_temp := ''83-98'' @ deg @ ''F (28-37'' @ deg @ ''C)''\<rparr>
           else texas)
     else if str_in ''new york'' q then
       \<lparr>location = ''New York, USA'',
        weather_link = ''https://forecast.weather.gov/MapClick.php?site=OKX&textField1=40.71&textField2=-74.01'',
        current_temp = ''65-80'' @ deg @ ''F (18-27'' @ deg @ ''C)'',
        conditions = ''partly cloudy with occasional showers'',
        specific_location = ''New York City''\<rparr>
     else if str_in ''california'' q \<or> str_in ''los angeles'' q then
       \<lparr>location = ''Los Angeles, California, USA'',
        weather_link = ''https://forecast.weather.gov/MapClick.php?site=LOX&textField1=34.05&textField2=-118.24'',
        current_temp = ''70-85'' @ deg @ ''F (21-29'' @ deg @ ''C)'',
        conditions = ''sunny with morning fog near the coast'',
        specific_location = ''Los Angeles''\<rparr>
     else if str_in ''chicago'' q then
       \<lparr>location = ''Chicago, Illinois, USA'',
        weather_link = ''https://forecast.weather.gov/MapClick.php?site=LOT&textField1=41.88&textField2=-87.63'',
        current_temp = ''65-80'' @ deg @ ''F (18-27'' @ deg @ ''C)'',
        conditions = ''partly cloudy with a chance of showers'',
        specific_location = ''Chicago''\<rparr>
     else if str_in ''florida'' q \<or> str_in ''miami'' q then
       \<lparr>location = ''Miami, Florida, USA'',
        weather_link = ''https://forecast.weather.gov/MapClick.php?site=MFL&textField1=25.76&textField2=-80.19'',
        current_temp = ''80-90'' @ deg @ ''F (27-32'' @ deg @ ''C)'',
        conditions = ''partly cloudy with afternoon thunderstorms'',
        specific_location = ''Miami''\<rparr>
     else
       \<lparr>location = ''the requested location'',
        weather_link = ''https://www.weather.gov/'',
        current_temp = ''varies by region'',
        conditions = ''varies by region'',
        specific_location = ''the requested location''\<rparr>)"

definition weather_results :: "weather_info \<Rightarrow> web_result list" where
  "weather_results w =
    [\<lparr>title = ''Current Weather in '' @ location w,
      link = weather_link w,
      snippet = ''The current temperature in '' @ specific_location w @ '' is approximately ''
                @ current_temp w @ '' with conditions '' @ conditions w
                @ ''. Weather patterns can change throughout the day, with temperatures typically peaking in the afternoon. The National Weather Service provides real-time updates for precise conditions.'',
      source = ''Weather Fallback''\<rparr>]
    @ [\<lparr>title = ''Weather Forecast for '' @ location w,
        link = ''https://www.accuweather.com/'',
        snippet = ''The forecast for '' @ specific_location w @ '' shows '' @ conditions w
                  @ '' with temperatures around '' @ current_temp w
                  @ ''. Humidity levels are moderate to high, and wind speeds are generally light to moderate. For hourly predictions, precipitation chances, and extended outlooks, check reliable weather services.'',
        source = ''Weather Resources''\<rparr>]"

text \<open>The canned records on the regulations; the argument is \<open>query.lower()\<close>.\<close>

definition udcpr_results :: "string \<Rightarrow> web_result list" where
  "udcpr_results q =
    [\<lparr>title = ''Maharashtra Urban Development Department - Official Website'',
      link = ''https://urban.maharashtra.gov.in/'',
      snippet = ''The Unified Development Control and Promotion Regulations (UDCPR) were introduced in December 2020 to standardize building regulations across Maharashtra (excluding Mumbai, MIDC areas, and Special Planning Authorities). The UDCPR covers zoning regulations, building heights, setbacks, FSI calculations, parking requirements, and other development controls.'',
      source = ''UDCPR Fallback''\<rparr>]
    @ (if str_in ''height'' q \<or> str_in ''building height'' q then
         [\<lparr>title = ''UDCPR Building Height Regulations'',
           link = ''https://urban.maharashtra.gov.in/udcpr'',
           snippet = ''The UDCPR specifies that the maximum height of buildings depends on the road width. For roads wider than 30m, the maximum height can be up to 70m (approximately 23 floors). For roads between 15-30m, the height limit is 50m. For roads between 9-15m, the height limit is 24m. All buildings taller than 15m require fire safety clearance.'',
           source = ''UDCPR Height Regulations''\<rparr>]
       else if str_in ''fsi'' q \<or> str_in ''floor space'' q \<or> str_in ''far'' q then
         [\<lparr>title = ''UDCPR Floor Space Index (FSI) Regulations'',
           link = ''https://urban.maharashtra.gov.in/udcpr'',
           snippet = ''The basic FSI in residential zones ranges from 1.1 to 1.5 depending on the city category. Premium FSI can be purchased up to a maximum of 0.5. For commercial zones, the basic FSI ranges from 1.5 to 2.0. Transit-Oriented Development zones get an additional 0.5 FSI. Educational, medical, and public service buildings receive an additional 0.3 FSI.'',
           source = ''UDCPR FSI Regulations''\<rparr>]
       else if str_in ''parking'' q then
         [\<lparr>title = ''UDCPR Parking Requirements'',
           link = ''https://urban.maharashtra.gov.in/udcpr'',
           snippet = ''For residential buildings, 1 parking space is required per apartment up to 100 sq.m. For larger apartments, 2 parking spaces are required. Commercial buildings require 1 parking space per 80 sq.m of built-up area. Additional visitor parking of 10% is mandatory for all developments with more than 10 units. Mechanical parking systems are permitted to maximize space utilization.'',
           source = ''UDCPR Parking Regulations''\<rparr>]
       else
         [\<lparr>title = ''Unified Development Control and Promotion Regulations (UDCPR)'',
           link = ''https://urban.maharashtra.gov.in/udcpr'',
           snippet = ''The UDCPR covers all aspects of urban development including land use zoning, plot sizes, road widths, open spaces, amenities, special regulations for certain buildings, environmental considerations, and fire safety norms. It aims to create a uniform set of regulations across Maharashtra while allowing for local variations through special provisions.'',
           source = ''UDCPR General Information''\<rparr>])
    @ (if str_in ''latest'' q \<or> str_in ''recent'' q \<or> str_in ''update'' q \<or> str_in ''new'' q then
         [\<lparr>title = ''Recent UDCPR Amendments and Updates'',
           link = ''https://urban.maharashtra.gov.in/site/notification'',
           snippet = ''Recent amendments to the UDCPR include: 1) Increased FSI for redevelopment projects from 1.5 to 1.8 in certain urban areas, 2) Relaxation in side margins for narrow plots less than 9m wide, 3) New provisions for electric vehicle charging infrastructure requiring 20% of parking spaces to be EV-ready, 4) Green building incentives offering 5-10% additional FSI for buildings achieving gold or platinum green certification.'',
           source = ''UDCPR Recent Updates''\<rparr>]
       else [])"

definition general_results :: "web_result list" where
  "general_results =
    [\<lparr>title = ''Maharashtra Urban Development Department'',
      link = ''https://urban.maharashtra.gov.in/'',
      snippet = ''The Maharashtra Urban Development Department oversees urban planning, infrastructure development, and building regulations across the state. It implements the Unified Development Control and Promotion Regulations (UDCPR) which standardize building norms across municipalities. The department also manages town planning schemes, urban renewal projects, and smart city initiatives.'',
      source = ''Fallback''\<rparr>]"

text \<open>The record of the two \<open>except\<close> clauses, under the source name of each.\<close>

definition fallback_result :: "string \<Rightarrow> web_result list" where
  "fallback_result src =
    [\<lparr>title = ''Maharashtra Urban Development Department'',
      link = ''https://urban.maharashtra.gov.in/'',
      snippet = ''Official website of Maharashtra Urban Development Department where you can find the latest UDCPR updates and notifications.'',
      source = src\<rparr>]"

text \<open>
  The block after the loop (``Always use our fallback approach''). It receives the results
  collected from the engines and the rewritten query; every path assigns \<open>results\<close> anew.
\<close>

definition direct_approach :: "string \<Rightarrow> network \<Rightarrow> web_result list \<Rightarrow> web_result list" where
  "direct_approach query net results =
    (case direct_response net of
       Inl e \<Rightarrow> fallback_result ''Fallback''
     | Inr _ \<Rightarrow>
         if str_in ''temperature'' (lower query) \<or> str_in ''weather'' (lower query)
         then weather_results (weather_lookup (lower query))
         else if str_in ''udcpr'' (lower query) \<or> str_in ''maharashtra'' (lower query)
                 \<or> str_in ''urban development'' (lower query)
                 \<or> str_in ''building regulations'' (lower query)
         then udcpr_results (lower query)
         else general_results)"

text \<open>The statements inside the outer \<open>try\<close> of \<open>perform_web_search\<close>.\<close>

definition perform_web_search_body :: "string \<Rightarrow> int \<Rightarrow> network \<Rightarrow> error + web_result list" where
  "perform_web_search_body query num_results net =
    Inr (direct_approach (rewrite_query query) net (collect_results num_results net))"

text \<open>
  \<open>perform_web_search(query, num_results)\<close>: the outer \<open>except\<close> clause turns an exception
  of the body into the ``Error Fallback'' record.
\<close>

definition perform_web_search :: "string \<Rightarrow> int \<Rightarrow> network \<Rightarrow> error + web_result list" where
  "perform_web_search query num_results net =
    (case perform_web_search_body query num_results net of
       Inl e \<Rightarrow> Inr (fallback_result ''Error Fallback'')
     | Inr results \<Rightarrow> Inr results)"

text \<open>\<open>format_search_results_for_context(results)\<close>\<close>

definition results_udcpr_related :: "web_result list \<Rightarrow> bool" where
  "results_udcpr_related results =
    list_ex (\<lambda>r. str_in ''udcpr'' (lower (title r)) \<or> str_in ''udcpr'' (lower (snippet r))
                 \<or> str_in ''maharashtra'' (lower (title r)) \<or> str_in ''maharashtra'' (lower (snippet r))
                 \<or> str_in ''urban development'' (lower (title r))
                 \<or> str_in ''urban development'' (lower (snippet r))) results"

definition combined_info :: "web_result list \<Rightarrow> string" where
  "combined_info results = concat (map (\<lambda>r. title r @ '':'' @ nl @ snippet r @ nl @ nl) results)"

definition format_search_results_for_context :: "web_result list \<Rightarrow> string" where
  "format_search_results_for_context results =
    (if results = [] then ''No relevant information found from web search.''
     else
       (if results_udcpr_related results
        then ''Information about UDCPR updates and regulations:'' @ nl @ nl
        else ''Information from web search:'' @ nl @ nl)
       @ combined_info results
       @ nl @ ''Instructions for using web search results:'' @ nl
       @ ''1. Use the above information to answer the user's question directly and completely.'' @ nl
       @ ''2. DO NOT mention sources or cite websites in your response.'' @ nl
       @ ''3. Present the information as factual knowledge, not as something you found from a search.'' @ nl
       @ ''4. If the search results contain real-time information like weather, prices, or current events, include this in your answer.'' @ nl
       @ ''5. If the information doesn't fully answer the question, acknowledge this limitation but still provide what you know.'' @ nl
       @ (if results_udcpr_related results
          then nl @ ''IMPORTANT: Focus on providing the actual regulations and updates about UDCPR. ''
               @ ''Present this information directly as facts without mentioning sources.'' @ nl
          else []))"

text \<open>
  The web search step of the chat handler of chatbot\_web.py: the value of
  \<open>web_search_context\<close> when the prompt is assembled. An exception of the search is caught
  and leaves it \<open>None\<close>.
\<close>

definition web_search_context :: "bool \<Rightarrow> string \<Rightarrow> retrieved_match list \<Rightarrow> network \<Rightarrow> string option" where
  "web_search_context use_web_search prompt results net =
    (if use_web_search then
       (if \<not> web_has_relevant_results prompt results then
          (case perform_web_search prompt 3 net of
             Inl e \<Rightarrow> None
           | Inr web_results \<Rightarrow>
               if web_results \<noteq> [] then Some (format_search_results_for_context web_results)
               else None)
        else None)
     else None)"

text \<open>
  Modelled from the spec: the \<open>create_chat_prompt\<close> that chatbot\_web.py imports from the
  module rag\_chatbot, whose source is missing. The Prompt Assembler of the specification
  (system turn, bounded history, a user turn made of the question, the relevant sections and,
  if the web search ran, the additional information block) is the function of the same name
  and parameters in udcpr\_chatbot\_streamlit.py, which stands for it here.
\<close>

definition web_chat_prompt ::
  "bool \<Rightarrow> string \<Rightarrow> string \<Rightarrow> retrieved_match list \<Rightarrow> network \<Rightarrow> chat_turn list \<Rightarrow> chat_turn list" where
  "web_chat_prompt use_web_search prompt context results net chat_history =
    create_chat_prompt prompt context (web_search_context use_web_search prompt results net)
      (Some chat_history)"

section \<open>Sample data for the scenarios\<close>

text \<open>Some record of a result list mentions \<open>s\<close> in its title or in its snippet.\<close>

definition results_mention :: "string \<Rightarrow> web_result list \<Rightarrow> bool" where
  "results_mention s results = list_ex (\<lambda>r. str_in s (title r) \<or> str_in s (snippet r)) results"

text \<open>The temperature range that the canned data holds for Austin.\<close>

definition austin_range :: string where
  "austin_range = ''82-97'' @ deg @ ''F (28-36'' @ deg @ ''C)''"

text \<open>The two weather entries met in the scenarios: the last branch of the lookup, and Austin.\<close>

definition generic_weather :: weather_info where
  "generic_weather =
    \<lparr>location = ''the requested location'',
     weather_link = ''https://www.weather.gov/'',
     current_temp = ''varies by region'',
     conditions = ''varies by region'',
     specific_location = ''the requested location''\<rparr>"

definition austin_weather :: weather_info where
  "austin_weather =
    \<lparr>location = ''Texas, USA'',
     weather_link = ''https://forecast.weather.gov/MapClick.php?site=EWX&textField1=31.25&textField2=-99.41'',
     current_temp = austin_range,
     conditions = ''partly cloudy with a chance of isolated thunderstorms'',
     specific_location = ''Austin''\<rparr>"

text \<open>Every engine request raises.\<close>

definition engines_down :: "string \<Rightarrow> error + raw_result list" where
  "engines_down engine_name = Inl ServiceError"

text \<open>
  DuckDuckGo and Bing answer, Google raises. The first Bing result repeats the title of the
  DuckDuckGo result.
\<close>

definition pune_tax_result :: raw_result where
  "pune_tax_result =
    \<lparr>title_elem = Some \<lparr>elem_text = ''Property Tax Pune'',
                         elem_href = Some ''https://propertytax.punecorporation.org/'',
                         parent_a_href = None\<rparr>,
     snippet_elem = None\<rparr>"

definition two_engines :: "string \<Rightarrow> error + raw_result list" where
  "two_engines engine_name =
    (if engine_name = ''DuckDuckGo'' then
       Inr [\<lparr>title_elem = Some \<lparr>elem_text = '' Pune Municipal Corporation '',
                                elem_href = Some ''https://www.pmc.gov.in/'',
                                parent_a_href = None\<rparr>,
             snippet_elem = Some ''Property tax''\<rparr>]
     else if engine_name = ''Bing'' then
       Inr [\<lparr>title_elem = Some \<lparr>elem_text = ''Pune Municipal Corporation'',
                                elem_href = Some ''https://pmc.gov.in/en'',
                                parent_a_href = None\<rparr>,
             snippet_elem = None\<rparr>,
            pune_tax_result]
     else Inl ServiceError)"

section \<open>Properties of the web-search decision\<close>

lemma str_in_iff_sublist: "str_in sub s = sublist sub s"
  by (induction s) (auto simp: sublist_Cons_right)

lemma any_in_member: "k \<in> set ks \<Longrightarrow> str_in k s \<Longrightarrow> any_in ks s"
  by (auto simp: any_in_def list_ex_iff)

text \<open>
  C1. A query whose lower-cased text contains ``most recent'' is sent to the web search by
  both decision blocks, whatever the retrieved matches and their scores are: the phrase is in
  both lists of forcing phrases, and in chat\_handler.py the forcing phrases are tested first,
  in chatbot\_web.py only the weather test, which decides the same way, comes before them.
\<close>

theorem most_recent_forces_web_search:
  assumes "str_in ''most recent'' (lower query)"
  shows "\<not> handler_has_relevant_results query results \<and> \<not> web_has_relevant_results query results"
proof -
  have "any_in handler_force_web_search_phrases (lower query)"
    by (rule any_in_member [OF _ assms]) (simp add: handler_force_web_search_phrases_def)
  moreover have "any_in web_force_web_search_phrases (lower query)"
    by (rule any_in_member [OF _ assms]) (simp add: web_force_web_search_phrases_def)
  ultimately show ?thesis
    by (simp add: handler_has_relevant_results_def web_has_relevant_results_def Let_def)
qed

theorem most_recent_forces_web_search_witness:
  "str_in ''most recent'' (lower ''What are the MOST RECENT amendments to the UDCPR?'')
   \<and> \<not> handler_has_relevant_results ''What are the MOST RECENT amendments to the UDCPR?''
         [\<lparr>score = Some 0.99, metadata = None\<rparr>, \<lparr>score = Some 0.99, metadata = None\<rparr>]
   \<and> \<not> web_has_relevant_results ''What are the MOST RECENT amendments to the UDCPR?''
         [\<lparr>score = Some 0.99, metadata = None\<rparr>, \<lparr>score = Some 0.99, metadata = None\<rparr>]"
proof -
  have h: "str_in ''most recent'' (lower ''What are the MOST RECENT amendments to the UDCPR?'')"
    by code_simp
  from most_recent_forces_web_search [OF h] h show ?thesis
    by blast
qed

text \<open>
  C4. For the query ``hi'', whose stripped length is 2, and no retrieved match at all, both
  decision blocks end with \<open>has_relevant_results = True\<close>: the web search is skipped.
\<close>

theorem hi_skips_web_search:
  "length (strip ''hi'') = 2
   \<and> handler_has_relevant_results ''hi'' []
   \<and> web_has_relevant_results ''hi'' []"
  by code_simp

text \<open>
  C10. The greeting test looks for the patterns as substrings. A query whose lower-cased
  text contains ``hi'' anywhere is taken for a greeting: in chat\_handler.py it skips the web
  search unless a forcing phrase occurs, in chatbot\_web.py unless the weather test, a forcing
  phrase or \<open>is_non_udcpr_query\<close> comes first; the retrieved matches play no part.
\<close>

theorem hi_substring_is_greeting:
  "(str_in ''hi'' (lower query)
      \<and> \<not> any_in handler_force_web_search_phrases (lower query)
    \<longrightarrow> handler_has_relevant_results query results)
   \<and> (str_in ''hi'' (lower query)
      \<and> \<not> (str_in ''temperature'' (lower query) \<or> str_in ''weather'' (lower query))
      \<and> \<not> any_in web_force_web_search_phrases (lower query)
      \<and> \<not> is_non_udcpr_query (any_in location_keywords (lower query))
             (any_in udcpr_keywords (lower query)) query
    \<longrightarrow> web_has_relevant_results query results)"
proof -
  have "any_in greeting_patterns (lower query)" if "str_in ''hi'' (lower query)"
    by (rule any_in_member [OF _ that]) (simp add: greeting_patterns_def)
  then show ?thesis
    by (auto simp: handler_has_relevant_results_def web_has_relevant_results_def Let_def)
qed

theorem hi_substring_is_greeting_witness:
  "str_in ''hi'' (lower ''Chicago'')
   \<and> \<not> any_in handler_force_web_search_phrases (lower ''Chicago'')
   \<and> handler_has_relevant_results ''Chicago'' []
   \<and> str_in ''hi'' (lower ''Explain the third schedule'')
   \<and> \<not> (str_in ''temperature'' (lower ''Explain the third schedule'')
         \<or> str_in ''weather'' (lower ''Explain the third schedule''))
   \<and> \<not> any_in web_force_web_search_phrases (lower ''Explain the third schedule'')
   \<and> \<not> is_non_udcpr_query (any_in location_keywords (lower ''Explain the third schedule''))
         (any_in udcpr_keywords (lower ''Explain the third schedule'')) ''Explain the third schedule''
   \<and> web_has_relevant_results ''Explain the third schedule'' [\<lparr>score = Some 0.1, metadata = None\<rparr>]"
proof -
  have a: "str_in ''hi'' (lower ''Chicago'')
           \<and> \<not> any_in handler_force_web_search_phrases (lower ''Chicago'')"
    by code_simp
  have b: "str_in ''hi'' (lower ''Explain the third schedule'')
           \<and> \<not> (str_in ''temperature'' (lower ''Explain the third schedule'')
                 \<or> str_in ''weather'' (lower ''Explain the third schedule''))
           \<and> \<not> any_in web_force_web_search_phrases (lower ''Explain the third schedule'')
           \<and> \<not> is_non_udcpr_query (any_in location_keywords (lower ''Explain the third schedule''))
                 (any_in udcpr_keywords (lower ''Explain the third schedule''))
                 ''Explain the third schedule''"
    by code_simp
  from a b
    hi_substring_is_greeting [of "''Chicago''" "[]"]
    hi_substring_is_greeting [of "''Explain the third schedule''" "[\<lparr>score = Some 0.1, metadata = None\<rparr>]"]
  show ?thesis
    by blast
qed

section \<open>Properties of the conversation history and of the prompt\<close>

lemma py_slice_from_last: "0 < k \<Longrightarrow> py_slice_from (- int k) xs = drop (length xs - k) xs"
  by (auto simp: py_slice_from_def Let_def max_def nat_diff_distrib')

lemma py_slice_from_10: "py_slice_from (- 10) xs = drop (length xs - 10) xs"
  using py_slice_from_last [of 10 xs] by simp

lemma limit_history_eq: "limit_history h = drop (length h - 10) h"
  by (simp add: limit_history_def MAX_HISTORY_MESSAGES_def py_slice_from_10)

lemma recent_history_eq: "recent_history h = drop (length (history_turns h) - 10) (history_turns h)"
  by (simp add: recent_history_def history_turns_def MAX_HISTORY_MESSAGES_def py_slice_from_10
        split: option.splits)

lemma copy_turn: "map (\<lambda>msg. \<lparr>role = role msg, content = content msg\<rparr>) xs = xs"
  by (induction xs) simp_all

text \<open>
  C5. Whatever the stored history is, after a chat turn has appended its user turn and its
  assistant turn and the limit has been applied, the history has at most
  \<open>MAX_HISTORY_MESSAGES\<close> = 10 turns, and it is the end of the appended sequence: its last
  \<open>min (length h + 2) 10\<close> turns in their order, the dropped ones being the oldest.
\<close>

theorem history_bounded_most_recent:
  "int (length (update_chat_history h prompt full_response)) \<le> MAX_HISTORY_MESSAGES
   \<and> length (update_chat_history h prompt full_response) = min (length h + 2) 10
   \<and> suffix (update_chat_history h prompt full_response) (appended_history h prompt full_response)
   \<and> update_chat_history h prompt full_response
       = drop (length h + 2 - 10) (appended_history h prompt full_response)"
  by (simp add: update_chat_history_def limit_history_eq MAX_HISTORY_MESSAGES_def
        appended_history_def suffix_drop min_def)

text \<open>
  C6. Both prompt assemblers return the system turn first, then the last
  \<open>min (len history) MAX_HISTORY_MESSAGES\<close> turns of the history in their order, then one
  user turn; the length is 1 + min (len history) 10 + 1. Neither function reads any
  retrieval or web result other than through the two context strings of the user turn.
\<close>

theorem prompt_shape:
  "api_create_chat_prompt query context chat_history
     = \<lparr>role = ''system'', content = api_system_message\<rparr>
       # drop (length (history_turns chat_history) - nat MAX_HISTORY_MESSAGES) (history_turns chat_history)
       @ [\<lparr>role = ''user'', content = user_message query context\<rparr>]
   \<and> length (api_create_chat_prompt query context chat_history)
       = 1 + min (length (history_turns chat_history)) (nat MAX_HISTORY_MESSAGES) + 1
   \<and> create_chat_prompt query context web chat_history
     = \<lparr>role = ''system'', content = streamlit_system_message\<rparr>
       # drop (length (history_turns chat_history) - nat MAX_HISTORY_MESSAGES) (history_turns chat_history)
       @ [last (create_chat_prompt query context web chat_history)]
   \<and> role (last (create_chat_prompt query context web chat_history)) = ''user''
   \<and> length (create_chat_prompt query context web chat_history)
       = 1 + min (length (history_turns chat_history)) (nat MAX_HISTORY_MESSAGES) + 1"
  by (auto simp: api_create_chat_prompt_def create_chat_prompt_def recent_history_eq copy_turn
        MAX_HISTORY_MESSAGES_def)

section \<open>Properties of the API server\<close>

lemma unpack_bare: "unpack_context_sources (format_context_from_results []) = Inl ValueError"
  by (simp add: format_context_from_results_def unpack_context_sources_def)

text \<open>
  C9. \<open>format_context_from_results\<close> of the API server returns a pair for every match
  list that is not empty and a bare string for the empty one. The \<open>/chat\<close> endpoint unpacks
  the value into two names, so when the retrieval returns no match it ends in its
  \<open>except\<close> clause with the internal error (status 500) caused by a ValueError, before any
  prompt is assembled or completion requested.
\<close>

theorem empty_retrieval_fails_chat:
  "(results \<noteq> [] \<longrightarrow> (\<exists>c s. format_context_from_results results = Pair c s))
   \<and> format_context_from_results [] = Bare ''No relevant information found in the UDCPR document.''
   \<and> (search_pinecone env (req_message request) = Inr []
      \<longrightarrow> fst (chat sessions request env) = Inl (HTTP500 ValueError))"
  by (simp add: chat_def Let_def unpack_bare) (simp add: format_context_from_results_def Let_def)

theorem empty_retrieval_fails_chat_witness:
  "(\<exists>c s. format_context_from_results
            [\<lparr>score = Some 0.9,
              metadata = Some \<lparr>text_field = Some ''FSI is 1.1'', source_field = Some ''UDCPR'',
                               page_num = Some ''12''\<rparr>\<rparr>] = Pair c s)
   \<and> fst (chat Map.empty
          \<lparr>req_message = ''What is the FSI?'', req_session_id = None, req_chat_history = None\<rparr>
          \<lparr>fresh_uuid = ''u1'', now = 0, search_pinecone = (\<lambda>q. Inr []),
           completion = (\<lambda>m. Inr ''ok'')\<rparr>)
       = Inl (HTTP500 ValueError)"
  using empty_retrieval_fails_chat
    [of "[\<lparr>score = Some 0.9,
            metadata = Some \<lparr>text_field = Some ''FSI is 1.1'', source_field = Some ''UDCPR'',
                             page_num = Some ''12''\<rparr>\<rparr>]"
        "\<lparr>fresh_uuid = ''u1'', now = 0, search_pinecone = (\<lambda>q. Inr []),
          completion = (\<lambda>m. Inr ''ok'')\<rparr>"
        "\<lparr>req_message = ''What is the FSI?'', req_session_id = None, req_chat_history = None\<rparr>"
        Map.empty]
  by simp

section \<open>Properties of the web search\<close>

lemma split_from_nonempty: "split_from sep acc s \<noteq> []"
  by (induction sep acc s rule: split_from.induct) auto

lemma split_from_prefix_two:
  "sep \<noteq> [] \<Longrightarrow> prefix sep s \<Longrightarrow> 1 < length (split_from sep [] s)"
proof (cases s)
  case Nil
  then show "sep \<noteq> [] \<Longrightarrow> prefix sep s \<Longrightarrow> ?thesis" by simp
next
  case (Cons c t)
  assume "sep \<noteq> []" "prefix sep s"
  then have "split_from sep [] s = [] # split_from sep [] (drop (length sep - 1) t)"
    using Cons by simp
  then show ?thesis
    using split_from_nonempty [of sep "[]" "drop (length sep - 1) t"]
    by (cases "split_from sep [] (drop (length sep - 1) t)") auto
qed

lemma clean_google_link_total: "\<exists>l'. clean_google_link l = Inr l'"
proof (cases "prefix ''/url?q='' l")
  case False
  then show ?thesis by (simp add: clean_google_link_def)
next
  case True
  have two: "1 < length (split_from ''/url?q='' [] l)"
    by (rule split_from_prefix_two [OF _ True]) simp
  have one: "0 < length (split_from ''&'' [] p)" for p
    using split_from_nonempty [of "''&''" "[]" p] by simp
  show ?thesis
    using True two one
    by (simp add: clean_google_link_def py_split_def py_item_def)
qed

lemma extract_link_total: "\<exists>l. extract_link engine_name te = Inr l"
  by (simp add: extract_link_def clean_google_link_total)

lemma scrape_results_step:
  assumes "title_elem r = Some te" and "extract_link name te = Inr l"
  shows "scrape_results name (r # rs) results =
          (if strip (elem_text te) \<noteq> [] \<and> l \<noteq> []
              \<and> strip (elem_text te) \<notin> title ` set results
           then scrape_results name rs
                  (results @ [\<lparr>title = strip (elem_text te), link = l,
                               snippet = (case snippet_elem r of None \<Rightarrow> [] | Some t \<Rightarrow> strip t),
                               source = name\<rparr>])
           else scrape_results name rs results)"
  using assms by (auto simp: list_ex_iff image_iff)

lemma scrape_results_skip:
  "title_elem r = None \<Longrightarrow> scrape_results name (r # rs) results = scrape_results name rs results"
  by simp

lemma scrape_results_keeps: "set results \<subseteq> set (scrape_results name rs results)"
proof (induction rs arbitrary: results)
  case Nil
  then show ?case by simp
next
  case (Cons r rs)
  show ?case
  proof (cases "title_elem r")
    case None
    then show ?thesis using Cons.IH [of results] by (simp only: scrape_results_skip)
  next
    case (Some te)
    obtain l where l: "extract_link name te = Inr l"
      using extract_link_total by blast
    let ?new = "\<lparr>title = strip (elem_text te), link = l,
                  snippet = (case snippet_elem r of None \<Rightarrow> [] | Some t \<Rightarrow> strip t),
                  source = name\<rparr>"
    have "set results \<subseteq> set (scrape_results name rs (results @ [?new]))"
      using Cons.IH [of "results @ [?new]"] by simp
    then show ?thesis
      using Cons.IH [of results] by (simp only: scrape_results_step [OF Some l] split: if_split) simp
  qed
qed

lemma scrape_results_distinct:
  "distinct (map title results) \<Longrightarrow> distinct (map title (scrape_results name rs results))"
proof (induction rs arbitrary: results)
  case Nil
  then show ?case by simp
next
  case (Cons r rs)
  show ?case
  proof (cases "title_elem r")
    case None
    then show ?thesis using Cons by (simp only: scrape_results_skip)
  next
    case (Some te)
    obtain l where l: "extract_link name te = Inr l"
      using extract_link_total by blast
    let ?new = "\<lparr>title = strip (elem_text te), link = l,
                  snippet = (case snippet_elem r of None \<Rightarrow> [] | Some t \<Rightarrow> strip t),
                  source = name\<rparr>"
    have "distinct (map title (scrape_results name rs (results @ [?new])))"
      if "strip (elem_text te) \<notin> title ` set results"
      using that Cons.prems by (intro Cons.IH) simp
    then show ?thesis
      using Cons.IH [OF Cons.prems] by (simp only: scrape_results_step [OF Some l] split: if_split) blast
  qed
qed

lemma scrape_results_covers:
  assumes "r \<in> set rs" and "title_elem r = Some te" and "strip (elem_text te) \<noteq> []"
    and "extract_link name te = Inr l" and "l \<noteq> []"
  shows "strip (elem_text te) \<in> title ` set (scrape_results name rs results)"
  using assms(1)
proof (induction rs arbitrary: results)
  case Nil
  then show ?case by simp
next
  case (Cons x rs)
  show ?case
  proof (cases "title_elem x")
    case None
    then have "x \<noteq> r" using assms(2) by auto
    then show ?thesis using Cons None by (simp only: scrape_results_skip) auto
  next
    case (Some tx)
    obtain lx where lx: "extract_link name tx = Inr lx"
      using extract_link_total by blast
    let ?new = "\<lparr>title = strip (elem_text tx), link = lx,
                  snippet = (case snippet_elem x of None \<Rightarrow> [] | Some t \<Rightarrow> strip t),
                  source = name\<rparr>"
    show ?thesis
    proof (cases "x = r")
      case True
      then have tx: "tx = te" "lx = l" using Some lx assms(2,4) by auto
      have a: "strip (elem_text te) \<in> title ` set (scrape_results name rs (results @ [?new]))"
        using scrape_results_keeps [of "results @ [?new]" name rs] tx by force
      have b: "strip (elem_text te) \<in> title ` set (scrape_results name rs results)"
        if "strip (elem_text te) \<in> title ` set results"
        using that scrape_results_keeps [of results name rs] by blast
      show ?thesis
        using a b assms(3,5) tx by (simp only: scrape_results_step [OF Some lx] split: if_split) blast
    next
      case False
      then have "r \<in> set rs" using Cons.prems by simp
      then show ?thesis
        using Cons.IH by (simp only: scrape_results_step [OF Some lx] split: if_split) blast
    qed
  qed
qed


lemma try_engine_keeps: "set results \<subseteq> set (try_engine n net results name)"
  by (simp add: try_engine_def scrape_results_keeps split: sum.splits)

lemma try_engine_distinct:
  "distinct (map title results) \<Longrightarrow> distinct (map title (try_engine n net results name))"
  by (simp add: try_engine_def scrape_results_distinct split: sum.splits)

lemma try_engine_covers:
  assumes "engine_response net name = Inr raws" and "r \<in> set (py_slice_to n raws)"
    and "title_elem r = Some te" and "strip (elem_text te) \<noteq> []"
    and "extract_link name te = Inr l" and "l \<noteq> []"
  shows "strip (elem_text te) \<in> title ` set (try_engine n net results name)"
  using scrape_results_covers [OF assms(2-6)] assms(1) by (simp add: try_engine_def)

lemma collect_results_unfold:
  "collect_results n net =
     try_engine n net (try_engine n net (try_engine n net [] ''DuckDuckGo'') ''Bing'') ''Google''"
  by (simp add: collect_results_def search_engines_def)

lemma collect_results_distinct: "distinct (map title (collect_results n net))"
  by (simp add: collect_results_unfold try_engine_distinct)

lemma collect_results_covers:
  assumes "name \<in> set search_engines"
    and "engine_response net name = Inr raws" and "r \<in> set (py_slice_to n raws)"
    and "title_elem r = Some te" and "strip (elem_text te) \<noteq> []"
    and "extract_link name te = Inr l" and "l \<noteq> []"
  shows "strip (elem_text te) \<in> title ` set (collect_results n net)"
proof -
  note cov = try_engine_covers [OF assms(2-7)]
  from assms(1) consider "name = ''DuckDuckGo''" | "name = ''Bing''" | "name = ''Google''"
    by (auto simp: search_engines_def)
  then show ?thesis
  proof cases
    case 1
    have "strip (elem_text te) \<in> title ` set (try_engine n net [] ''DuckDuckGo'')"
      using cov [of "[]"] 1 by simp
    then show ?thesis
      using try_engine_keeps [of "try_engine n net [] ''DuckDuckGo''" n net "''Bing''"]
        try_engine_keeps [of "try_engine n net (try_engine n net [] ''DuckDuckGo'') ''Bing''" n net "''Google''"]
      unfolding collect_results_unfold by blast
  next
    case 2
    have "strip (elem_text te) \<in> title ` set (try_engine n net (try_engine n net [] ''DuckDuckGo'') ''Bing'')"
      using cov [of "try_engine n net [] ''DuckDuckGo''"] 2 by simp
    then show ?thesis
      using try_engine_keeps [of "try_engine n net (try_engine n net [] ''DuckDuckGo'') ''Bing''" n net "''Google''"]
      unfolding collect_results_unfold by blast
  next
    case 3
    then show ?thesis
      using cov [of "try_engine n net (try_engine n net [] ''DuckDuckGo'') ''Bing''"]
      unfolding collect_results_unfold by simp
  qed
qed

lemma direct_approach_ignores: "direct_approach query net results = direct_approach query net []"
  by (simp add: direct_approach_def)

lemma direct_approach_synthetic:
  "direct_approach query net results \<in>
     {fallback_result ''Fallback'', weather_results (weather_lookup (lower query)),
      udcpr_results (lower query), general_results}"
  by (simp add: direct_approach_def split: sum.splits)

lemma perform_web_search_eq:
  "perform_web_search query n net = Inr (direct_approach (rewrite_query query) net [])"
  by (simp add: perform_web_search_def perform_web_search_body_def direct_approach_def)

lemma direct_approach_nonempty: "direct_approach query net results \<noteq> []"
  by (simp add: direct_approach_def fallback_result_def weather_results_def udcpr_results_def
        general_results_def split: sum.splits)

lemma weather_titles: "distinct (map title (weather_results w))"
  by (simp add: weather_results_def)

lemma udcpr_titles: "distinct (map title (udcpr_results q))"
  by (simp add: udcpr_results_def)

lemma direct_approach_titles: "distinct (map title (direct_approach query net results))"
  by (simp add: direct_approach_def fallback_result_def weather_titles udcpr_titles
        general_results_def split: sum.splits)

lemma format_nonempty: "format_search_results_for_context rs \<noteq> []"
  by (simp add: format_search_results_for_context_def)

lemma web_search_context_runs:
  "\<not> web_has_relevant_results prompt results \<Longrightarrow>
   web_search_context True prompt results net
     = Some (format_search_results_for_context (direct_approach (rewrite_query prompt) net []))"
  by (simp add: web_search_context_def perform_web_search_eq direct_approach_nonempty)

text \<open>
  C7. \<open>perform_web_search\<close> returns a list that is not empty for every query, every
  \<open>num_results\<close> and every behaviour of the network; when every outbound request raises,
  the list is the single ``Fallback'' record.
\<close>

theorem web_search_never_fails:
  "(\<exists>rs. perform_web_search query num_results net = Inr rs \<and> rs \<noteq> [])
   \<and> perform_web_search query num_results
        \<lparr>engine_response = engines_down, direct_response = Inl ServiceError\<rparr>
       = Inr (fallback_result ''Fallback'')"
  by (simp add: perform_web_search_eq direct_approach_nonempty) (simp add: direct_approach_def)

text \<open>
  C8. No two records of the list that \<open>perform_web_search\<close> returns have the same title,
  whatever the engines and the direct request answer.
\<close>

theorem web_search_titles_distinct:
  "\<exists>rs. perform_web_search query num_results net = Inr rs \<and> distinct (map title rs)"
  by (simp add: perform_web_search_eq direct_approach_titles)

text \<open>
  C3, as the claim states it, fails: with DuckDuckGo and Bing answering, two results are
  collected, and the function returns neither; it returns the canned general record.
\<close>

theorem aggregated_results_discarded:
  "map title (collect_results 3 \<lparr>engine_response = two_engines, direct_response = Inr ()\<rparr>)
     = [''Pune Municipal Corporation'', ''Property Tax Pune'']
   \<and> perform_web_search ''pune property tax'' 3
        \<lparr>engine_response = two_engines, direct_response = Inr ()\<rparr>
       = Inr general_results
   \<and> perform_web_search ''pune property tax'' 3
        \<lparr>engine_response = two_engines, direct_response = Inr ()\<rparr>
       \<noteq> Inr (collect_results 3 \<lparr>engine_response = two_engines, direct_response = Inr ()\<rparr>)"
  by code_simp

text \<open>
  C3, amended. The loop over the engines does not stop at the first success and keeps the
  titles apart: the collected titles are distinct, and every result among the first
  \<open>num_results\<close> of an engine that answered, with a title and a link that are not empty,
  has its title among them. The collected results are never returned: whatever they are, the
  function returns canned records, namely the ``Fallback'' record when the direct request
  raises, and otherwise the weather, regulation or general records chosen from the rewritten
  query.
\<close>

theorem aggregation_distinct_then_synthetic:
  "distinct (map title (collect_results num_results net))
   \<and> (engine_name \<in> set search_engines
      \<and> engine_response net engine_name = Inr raws
      \<and> r \<in> set (py_slice_to num_results raws)
      \<and> title_elem r = Some te \<and> strip (elem_text te) \<noteq> []
      \<and> extract_link engine_name te = Inr l \<and> l \<noteq> []
      \<longrightarrow> strip (elem_text te) \<in> title ` set (collect_results num_results net))
   \<and> (\<exists>rs. perform_web_search query num_results net = Inr rs
         \<and> rs = direct_approach (rewrite_query query) net []
         \<and> rs \<in> {fallback_result ''Fallback'',
                  weather_results (weather_lookup (lower (rewrite_query query))),
                  udcpr_results (lower (rewrite_query query)), general_results})"
  using collect_results_covers [of engine_name net raws r num_results te l]
    direct_approach_synthetic [of "rewrite_query query" net "[]"]
  by (simp add: collect_results_distinct perform_web_search_eq)

theorem aggregation_distinct_then_synthetic_witness:
  "''Bing'' \<in> set search_engines
   \<and> engine_response \<lparr>engine_response = two_engines, direct_response = Inr ()\<rparr> ''Bing''
       = two_engines ''Bing''
   \<and> (\<exists>raws. two_engines ''Bing'' = Inr raws \<and> pune_tax_result \<in> set (py_slice_to 3 raws))
   \<and> strip ''Property Tax Pune'' \<noteq> []
   \<and> extract_link ''Bing'' \<lparr>elem_text = ''Property Tax Pune'',
                            elem_href = Some ''https://propertytax.punecorporation.org/'',
                            parent_a_href = None\<rparr>
       = Inr ''https://propertytax.punecorporation.org/''
   \<and> distinct (map title (collect_results 3 \<lparr>engine_response = two_engines, direct_response = Inr ()\<rparr>))
   \<and> strip ''Property Tax Pune''
       \<in> title ` set (collect_results 3 \<lparr>engine_response = two_engines, direct_response = Inr ()\<rparr>)
   \<and> perform_web_search ''pune property tax'' 3
        \<lparr>engine_response = two_engines, direct_response = Inr ()\<rparr>
       = Inr (direct_approach (rewrite_query ''pune property tax'')
               \<lparr>engine_response = two_engines, direct_response = Inr ()\<rparr> [])"
proof -
  let ?net = "\<lparr>engine_response = two_engines, direct_response = Inr ()\<rparr>"
  let ?te = "\<lparr>elem_text = ''Property Tax Pune'',
              elem_href = Some ''https://propertytax.punecorporation.org/'',
              parent_a_href = None\<rparr>"
  let ?raws = "[\<lparr>title_elem = Some \<lparr>elem_text = ''Pune Municipal Corporation'',
                                    elem_href = Some ''https://pmc.gov.in/en'',
                                    parent_a_href = None\<rparr>,
                 snippet_elem = None\<rparr>,
                pune_tax_result]"
  have a: "''Bing'' \<in> set search_engines"
    by (simp add: search_engines_def)
  have b: "two_engines ''Bing'' = Inr ?raws"
    by (simp add: two_engines_def)
  have c: "pune_tax_result \<in> set (py_slice_to 3 ?raws)"
    by (simp add: py_slice_to_def)
  have d: "title_elem pune_tax_result = Some ?te"
    by (simp add: pune_tax_result_def)
  have e: "strip ''Property Tax Pune'' \<noteq> []"
    by code_simp
  have f: "extract_link ''Bing'' ?te = Inr ''https://propertytax.punecorporation.org/''"
    by (simp add: extract_link_def)
  from a b c d e f
    aggregation_distinct_then_synthetic
      [of 3 ?net "''Bing''" ?raws pune_tax_result ?te
          "''https://propertytax.punecorporation.org/''" "''pune property tax''"]
  show ?thesis
    by auto
qed

section \<open>The weather scenario\<close>

lemma austin_facts:
  "str_in ''temperature'' (lower ''what is the temperature in Austin right now'')
   \<and> rewrite_query ''what is the temperature in Austin right now''
       = ''what is the temperature in Austin right now''
   \<and> weather_lookup (lower ''what is the temperature in Austin right now'') = generic_weather"
  by code_simp

lemma austin_texas_facts:
  "str_in ''temperature'' (lower ''what is the temperature in Austin Texas right now'')
   \<and> rewrite_query ''what is the temperature in Austin Texas right now''
       = ''what is the temperature in Austin Texas right now''
   \<and> weather_lookup (lower ''what is the temperature in Austin Texas right now'') = austin_weather"
  by code_simp

lemma austin_decision:
  "\<not> web_has_relevant_results ''what is the temperature in Austin right now'' results"
  using austin_facts by (simp add: web_has_relevant_results_def Let_def)

lemma austin_direct:
  "direct_approach ''what is the temperature in Austin right now'' net rs
    = (case direct_response net of
         Inl e \<Rightarrow> fallback_result ''Fallback''
       | Inr u \<Rightarrow> weather_results generic_weather)"
  using austin_facts by (simp add: direct_approach_def split: sum.splits)

lemma austin_texas_direct:
  "direct_approach ''what is the temperature in Austin Texas right now'' net rs
    = (case direct_response net of
         Inl e \<Rightarrow> fallback_result ''Fallback''
       | Inr u \<Rightarrow> weather_results austin_weather)"
  using austin_texas_facts by (simp add: direct_approach_def split: sum.splits)

lemma range_mentions:
  "\<not> results_mention austin_range (weather_results generic_weather)
   \<and> \<not> results_mention austin_range (fallback_result ''Fallback'')
   \<and> results_mention austin_range (weather_results austin_weather)"
  by code_simp

text \<open>
  Where the Austin range does come from: the city is looked for once ``texas'' has been
  found, so the query that names both gets it when the direct request succeeds.
\<close>

lemma austin_texas_returns_range:
  "perform_web_search ''what is the temperature in Austin Texas right now'' 3 net
     = Inr (case direct_response net of
              Inl e \<Rightarrow> fallback_result ''Fallback''
            | Inr u \<Rightarrow> weather_results austin_weather)
   \<and> results_mention austin_range (weather_results austin_weather)"
  using range_mentions by (simp add: perform_web_search_eq austin_texas_facts austin_texas_direct)

text \<open>
  C2, as the claim states it, fails: for the query ``what is the temperature in Austin right
  now'' the search returns the weather records of the last branch of the lookup when the
  direct request succeeds and the ``Fallback'' record when it raises, and neither mentions
  the range 82-97 F (28-36 C).
\<close>

theorem austin_range_not_returned:
  "perform_web_search ''what is the temperature in Austin right now'' 3
      \<lparr>engine_response = engines_down, direct_response = Inr ()\<rparr>
     = Inr (weather_results generic_weather)
   \<and> \<not> results_mention austin_range (weather_results generic_weather)
   \<and> perform_web_search ''what is the temperature in Austin right now'' 3
      \<lparr>engine_response = engines_down, direct_response = Inl ServiceError\<rparr>
     = Inr (fallback_result ''Fallback'')
   \<and> \<not> results_mention austin_range (fallback_result ''Fallback'')"
  by code_simp

text \<open>
  C2, amended. For the query ``what is the temperature in Austin right now'' the decision of
  chatbot\_web.py is \<open>False\<close> by the weather test, for every match list; the web search
  runs and returns, when the direct request succeeds, the weather records for ``the
  requested location'' with the temperature ``varies by region'', and the ``Fallback''
  record when it raises; neither mentions the range 82-97 F (28-36 C); the web context built
  from what the search returns ends the user turn of the prompt.
\<close>

theorem austin_weather_scenario:
  "\<not> web_has_relevant_results ''what is the temperature in Austin right now'' results
   \<and> perform_web_search ''what is the temperature in Austin right now'' 3 net
       = Inr (case direct_response net of
                Inl e \<Rightarrow> fallback_result ''Fallback''
              | Inr u \<Rightarrow> weather_results generic_weather)
   \<and> \<not> results_mention austin_range (weather_results generic_weather)
   \<and> \<not> results_mention austin_range (fallback_result ''Fallback'')
   \<and> web_search_context True ''what is the temperature in Austin right now'' results net
       = Some (format_search_results_for_context
                 (case direct_response net of
                    Inl e \<Rightarrow> fallback_result ''Fallback''
                  | Inr u \<Rightarrow> weather_results generic_weather))
   \<and> content (last (web_chat_prompt True ''what is the temperature in Austin right now''
                       context results net chat_history))
       = user_message ''what is the temperature in Austin right now'' context @ nl @ nl
         @ ''Additional information from web search:'' @ nl
         @ format_search_results_for_context
             (case direct_response net of
                Inl e \<Rightarrow> fallback_result ''Fallback''
              | Inr u \<Rightarrow> weather_results generic_weather)"
  using austin_facts range_mentions
  by (simp add: austin_decision perform_web_search_eq austin_direct
        web_search_context_runs web_chat_prompt_def create_chat_prompt_def format_nonempty)

end
